theory Spec2Isabelle
  imports Main "HOL-Library.AList" "HOL-Library.Signed_Division"
begin

section \<open>Errors\<close>

text \<open>
  What the Python raises. \<open>KeyError\<close> is a failed dictionary lookup or \<^verbatim>\<open>del\<close>,
  \<open>ZeroDivisionError\<close> a division by a zero fixed-point number. The three \<^verbatim>\<open>assert\<close>
  statements all raise \<^verbatim>\<open>AssertionError\<close>; they are told apart here by the names the
  specification gives them: \<open>InvalidPolicy\<close> (\<^verbatim>\<open>assert policy.interest_rate > 0\<close>),
  \<open>InsufficientCapital\<close> (\<^verbatim>\<open>assert ocean >= policy.mcr\<close>) and \<open>InsufficientOcean\<close>
  (\<^verbatim>\<open>assert mcr_amount <= ocean\<close>).
\<close>

datatype error =
    KeyError
  | ZeroDivisionError
  | InvalidPolicy
  | InsufficientCapital
  | InsufficientOcean

section \<open>Fixed-point numbers\<close>

text \<open>
  Modelled from the spec: the module \<^verbatim>\<open>wadray\<close> (classes \<^verbatim>\<open>Wad\<close> and \<^verbatim>\<open>Ray\<close>, constant
  \<^verbatim>\<open>RAY\<close>), which \<^verbatim>\<open>prototype.py\<close> imports and which is not among the sources.
  A \<^verbatim>\<open>Wad\<close> is an integer read at scale \<open>10^18\<close>, a \<^verbatim>\<open>Ray\<close> an integer read at scale
  \<open>10^27\<close>; both are the raw integer here. Sum, difference and comparison are those
  of the raw integers, \<open>a * b\<close> is \<open>(a.raw * b.raw) / SCALE\<close> and \<open>a // b\<close> is
  \<open>(a.raw * SCALE) / b.raw\<close>, every quotient truncated toward zero (\<open>sdiv\<close>; on
  operands of one sign and on exact quotients this is Python's \<^verbatim>\<open>//\<close> as well), and a
  zero divisor raises. Python integers are unbounded, so there is no overflow branch.
  The scale of a product or quotient is that of the left operand, the class whose
  operator Python calls; the specification gives the rule for operands of one scale
  only. \<open>wad_quot\<close> and \<open>ray_quot\<close> are the quotients for a divisor known to be nonzero,
  \<open>wad_floordiv\<close> and \<open>ray_floordiv\<close> the operator with its error.
\<close>

type_synonym wad = int
type_synonym ray = int

definition WAD :: int where
  "WAD = 10 ^ 18"

definition RAY :: int where
  "RAY = 10 ^ 27"

definition SECONDS_IN_YEAR :: int where
  "SECONDS_IN_YEAR = 365 * 24 * 3600"

definition wad_from_value :: "int \<Rightarrow> wad" where
  "wad_from_value n = n * WAD"

definition ray_from_value :: "int \<Rightarrow> ray" where
  "ray_from_value n = n * RAY"

definition wad_mul :: "wad \<Rightarrow> wad \<Rightarrow> wad" where
  "wad_mul a b = (a * b) sdiv WAD"

definition ray_mul :: "ray \<Rightarrow> ray \<Rightarrow> ray" where
  "ray_mul a b = (a * b) sdiv RAY"

definition wad_quot :: "wad \<Rightarrow> int \<Rightarrow> wad" where
  "wad_quot a b = (a * WAD) sdiv b"

definition ray_quot :: "ray \<Rightarrow> int \<Rightarrow> ray" where
  "ray_quot a b = (a * RAY) sdiv b"

definition wad_floordiv :: "wad \<Rightarrow> int \<Rightarrow> error + wad" where
  "wad_floordiv a b = (if b = 0 then Inl ZeroDivisionError else Inr (wad_quot a b))"

definition ray_floordiv :: "ray \<Rightarrow> int \<Rightarrow> error + ray" where
  "ray_floordiv a b = (if b = 0 then Inl ZeroDivisionError else Inr (ray_quot a b))"

definition to_ray :: "wad \<Rightarrow> ray" where
  "to_ray w = w * 10 ^ 9"

definition to_wad :: "ray \<Rightarrow> wad" where
  "to_wad r = r sdiv 10 ^ 9"

section \<open>Risk modules and policies\<close>

record risk_module =
  rm_name :: string
  mcr_percentage :: ray
  premium_share :: ray
  ensuro_share :: ray

text \<open>
  \<^verbatim>\<open>RiskModule.build\<close>: each percentage is divided by \<^verbatim>\<open>Ray.from_value(100)\<close>, a divisor
  that is never zero, so the quotient is taken without an error branch.
\<close>

definition RiskModule_build :: "string \<Rightarrow> int \<Rightarrow> int \<Rightarrow> int \<Rightarrow> risk_module" where
  "RiskModule_build nm mcr_pct prem_pct ens_pct =
     \<lparr> rm_name = nm,
       mcr_percentage = ray_quot (ray_from_value mcr_pct) (ray_from_value 100),
       premium_share = ray_quot (ray_from_value prem_pct) (ray_from_value 100),
       ensuro_share = ray_quot (ray_from_value ens_pct) (ray_from_value 100) \<rparr>"

text \<open>
  A \<^verbatim>\<open>Policy\<close>. The field \<^verbatim>\<open>mcr\<close> is \<open>policy_mcr\<close> (the pool has a field of the same
  name); \<^verbatim>\<open>parameters\<close> is an opaque dictionary no method reads and is left out.
\<close>

record policy =
  policy_id :: int
  risk_module :: risk_module
  premium :: wad
  payout :: wad
  policy_mcr :: wad
  loss_prob :: ray
  start :: int
  expiration :: int
  locked_funds :: "(string \<times> wad) list"

definition Policy_init ::
  "int \<Rightarrow> risk_module \<Rightarrow> wad \<Rightarrow> wad \<Rightarrow> ray \<Rightarrow> int \<Rightarrow> int \<Rightarrow> policy" where
  "Policy_init pid rm payout_v premium_v loss_prob_v start_v expiration_v =
     \<lparr> policy_id = pid,
       risk_module = rm,
       premium = premium_v,
       payout = payout_v,
       policy_mcr = to_wad (ray_mul (to_ray (payout_v - premium_v)) (mcr_percentage rm)),
       loss_prob = loss_prob_v,
       start = start_v,
       expiration = expiration_v,
       locked_funds = [] \<rparr>"

definition pure_premium :: "policy \<Rightarrow> wad" where
  "pure_premium self = to_wad (ray_mul (to_ray (payout self)) (loss_prob self))"

text \<open>
  The property \<^verbatim>\<open>interest_rate\<close> is recomputed at every read; its one division has a
  divisor that can be zero (a zero \<^verbatim>\<open>mcr\<close> or a zero duration).
\<close>

definition interest_rate :: "policy \<Rightarrow> error + ray" where
  "interest_rate self =
     (let profit_premium = premium self - pure_premium self;
          for_ensuro = to_wad (ray_mul (to_ray profit_premium) (ensuro_share (risk_module self)));
          for_risk_module =
            to_wad (ray_mul (to_ray profit_premium) (premium_share (risk_module self)));
          for_lps = profit_premium - for_ensuro - for_risk_module
      in case wad_floordiv (wad_mul for_lps (wad_from_value SECONDS_IN_YEAR))
                (wad_mul (wad_from_value (expiration self - start self)) (policy_mcr self)) of
           Inl e \<Rightarrow> Inl e
         | Inr q \<Rightarrow> Inr (to_ray q))"

section \<open>The capital pool\<close>

text \<open>
  The three dictionaries of an \<^verbatim>\<open>EToken\<close> are association lists in insertion order,
  as a Python dictionary is: \<open>AList.update\<close> overwrites in place or appends,
  \<open>AList.delete\<close> is \<^verbatim>\<open>del\<close>, \<open>map_of\<close> is the lookup. The global \<^verbatim>\<open>_now\<close> is the argument
  \<open>now\<close> of every function that reads the clock. The field \<^verbatim>\<open>decimals\<close>, asserted to be
  18 and never read, is left out.

  A method that assigns to \<^verbatim>\<open>self\<close> returns the pool after the call, also when it
  raises: an exception leaves the assignments made before it.
\<close>

type_synonym provider = string

record etoken =
  name :: string
  expiration_period :: int
  current_index :: ray
  last_index_update :: int
  balances :: "(provider \<times> wad) list"
  indexes :: "(provider \<times> ray) list"
  timestamps :: "(provider \<times> int) list"
  mcr :: wad
  mcr_interest_rate :: ray
  token_interest_rate :: ray

definition EToken_init :: "string \<Rightarrow> int \<Rightarrow> int \<Rightarrow> etoken" where
  "EToken_init nm period now =
     \<lparr> name = nm,
       expiration_period = period,
       current_index = RAY,
       last_index_update = now,
       balances = [],
       indexes = [],
       timestamps = [],
       mcr = 0,
       mcr_interest_rate = 0,
       token_interest_rate = 0 \<rparr>"

text \<open>
  \<^verbatim>\<open>_calculate_current_index\<close>. The divisor \<^verbatim>\<open>Ray.from_value(SECONDS_IN_YEAR)\<close> is a nonzero
  constant, so the quotient has no error branch.
\<close>

definition calculate_current_index :: "etoken \<Rightarrow> int \<Rightarrow> ray" where
  "calculate_current_index self now =
     (let increment =
            ray_quot
              (ray_mul (ray_mul (current_index self)
                          (ray_from_value (now - last_index_update self)))
                 (token_interest_rate self))
              (ray_from_value SECONDS_IN_YEAR)
      in current_index self + increment)"

definition update_current_index :: "etoken \<Rightarrow> int \<Rightarrow> etoken" where
  "update_current_index self now =
     self\<lparr> current_index := calculate_current_index self now,
           last_index_update := now \<rparr>"

text \<open>
  \<^verbatim>\<open>total_supply\<close> is returned with the pool after the call, so that what the call
  leaves of the pool can be stated.
\<close>

definition total_supply :: "etoken \<Rightarrow> int \<Rightarrow> etoken \<times> wad" where
  "total_supply self now =
     (let base_supply = sum_list (map snd (balances self))
      in (self, to_wad (ray_mul (to_ray base_supply) (calculate_current_index self now))))"

definition ocean :: "etoken \<Rightarrow> int \<Rightarrow> wad" where
  "ocean self now = (case total_supply self now of (self1, supply) \<Rightarrow> supply - mcr self1)"

definition accepts :: "etoken \<Rightarrow> policy \<Rightarrow> int \<Rightarrow> bool" where
  "accepts self pol now \<longleftrightarrow> expiration pol \<le> now + expiration_period self"

text \<open>
  \<^verbatim>\<open>lock_mcr\<close>. The assertion is \<open>InsufficientOcean\<close>. The new \<^verbatim>\<open>mcr_interest_rate\<close> of the
  second branch is divided by \<^verbatim>\<open>self.mcr\<close>, a \<^verbatim>\<open>Wad\<close>, as the source has it; the reads of
  \<^verbatim>\<open>policy.interest_rate\<close> and the two divisions can raise after \<^verbatim>\<open>self.mcr\<close> and the
  index have been assigned.
\<close>

definition lock_mcr :: "etoken \<Rightarrow> int \<Rightarrow> policy \<Rightarrow> wad \<Rightarrow> etoken \<times> (error + unit)" where
  "lock_mcr self now pol mcr_amount =
     (case total_supply self now of (self0, supply) \<Rightarrow>
        let ocean_v = supply - mcr self0 in
        if \<not> mcr_amount \<le> ocean_v then (self0, Inl InsufficientOcean)
        else
          let self1 = update_current_index self0 now in
          (case (if mcr self1 = 0 then
                  (let self2 = self1\<lparr> mcr := mcr_amount \<rparr> in
                   case interest_rate pol of
                     Inl e \<Rightarrow> (self2, Inl e)
                   | Inr r \<Rightarrow> (self2\<lparr> mcr_interest_rate := r \<rparr>, Inr ()))
                else
                  (let orig_mcr = mcr self1;
                       self2 = self1\<lparr> mcr := mcr self1 + mcr_amount \<rparr> in
                   case interest_rate pol of
                     Inl e \<Rightarrow> (self2, Inl e)
                   | Inr r \<Rightarrow>
                       (case ray_floordiv
                               (ray_mul (mcr_interest_rate self2) (to_ray orig_mcr)
                                + ray_mul r (to_ray mcr_amount))
                               (mcr self2) of
                          Inl e \<Rightarrow> (self2, Inl e)
                        | Inr q \<Rightarrow> (self2\<lparr> mcr_interest_rate := q \<rparr>, Inr ())))) of
            (self3, Inl e) \<Rightarrow> (self3, Inl e)
          | (self3, Inr u) \<Rightarrow>
              (case ray_floordiv (ray_mul (mcr_interest_rate self3) (to_ray (mcr self3)))
                      (to_ray supply) of
                 Inl e \<Rightarrow> (self3, Inl e)
               | Inr q \<Rightarrow> (self3\<lparr> token_interest_rate := q \<rparr>, Inr ()))))"

text \<open>
  \<^verbatim>\<open>balance_of\<close> realizes the index for a known provider. The read of
  \<^verbatim>\<open>self.indexes[provider]\<close> raises \<open>KeyError\<close> when the entry is missing, and the division
  by it raises when it is zero.
\<close>

definition balance_of :: "etoken \<Rightarrow> int \<Rightarrow> provider \<Rightarrow> etoken \<times> (error + wad)" where
  "balance_of self now p =
     (case map_of (balances self) p of
        None \<Rightarrow> (self, Inr 0)
      | Some principal_balance \<Rightarrow>
          let self1 = update_current_index self now in
          (case map_of (indexes self1) p of
            None \<Rightarrow> (self1, Inl KeyError)
          | Some idx \<Rightarrow>
              (case ray_floordiv (ray_mul (to_ray principal_balance) (current_index self1)) idx of
                 Inl e \<Rightarrow> (self1, Inl e)
               | Inr q \<Rightarrow> (self1, Inr (to_wad q)))))"

definition deposit :: "etoken \<Rightarrow> int \<Rightarrow> provider \<Rightarrow> wad \<Rightarrow> etoken \<times> (error + wad)" where
  "deposit self now p amount =
     (let self1 = update_current_index self now in
      case balance_of self1 now p of
        (self2, Inl e) \<Rightarrow> (self2, Inl e)
      | (self2, Inr b) \<Rightarrow>
          let self3 = self2\<lparr> balances := AList.update p (b + amount) (balances self2) \<rparr>;
              self4 = self3\<lparr> indexes := AList.update p (current_index self3) (indexes self3) \<rparr>;
              self5 = self4\<lparr> timestamps := AList.update p now (timestamps self4) \<rparr>
          in (self5, Inr (b + amount)))"

text \<open>
  \<^verbatim>\<open>redeem\<close>; the amount \<^verbatim>\<open>None\<close> asks for the whole balance. Each \<^verbatim>\<open>del\<close> raises
  \<open>KeyError\<close> on a missing key.
\<close>

definition redeem :: "etoken \<Rightarrow> int \<Rightarrow> provider \<Rightarrow> wad option \<Rightarrow> etoken \<times> (error + wad)" where
  "redeem self now p amount_opt =
     (case balance_of self now p of
        (self1, Inl e) \<Rightarrow> (self1, Inl e)
      | (self1, Inr balance) \<Rightarrow>
          if balance = 0 then (self1, Inr 0)
          else
            let amount = (case amount_opt of
                            None \<Rightarrow> balance
                          | Some a \<Rightarrow> if a > balance then balance else a);
                self2 = self1\<lparr> balances := AList.update p (balance - amount) (balances self1) \<rparr>;
                self3 = update_current_index self2 now
            in if balance = amount then
                 (let self4 = self3\<lparr> balances := AList.delete p (balances self3) \<rparr> in
                  if map_of (indexes self4) p = None then (self4, Inl KeyError)
                  else
                    let self5 = self4\<lparr> indexes := AList.delete p (indexes self4) \<rparr> in
                    if map_of (timestamps self5) p = None then (self5, Inl KeyError)
                    else (self5\<lparr> timestamps := AList.delete p (timestamps self5) \<rparr>, Inr amount))
               else
                 (self3\<lparr> indexes := AList.update p (current_index self3) (indexes self3),
                         timestamps := AList.update p now (timestamps self3) \<rparr>,
                  Inr amount))"

section \<open>The coordinator\<close>

record protocol =
  risk_modules :: "(string \<times> risk_module) list"
  etokens :: "(string \<times> etoken) list"
  policies :: "policy list"
  policy_count :: int

definition Protocol_init :: protocol where
  "Protocol_init = \<lparr> risk_modules = [], etokens = [], policies = [], policy_count = 0 \<rparr>"

definition add_risk_module :: "protocol \<Rightarrow> risk_module \<Rightarrow> protocol" where
  "add_risk_module self rm =
     self\<lparr> risk_modules := AList.update (rm_name rm) rm (risk_modules self) \<rparr>"

definition add_etoken :: "protocol \<Rightarrow> etoken \<Rightarrow> protocol" where
  "add_etoken self etk = self\<lparr> etokens := AList.update (name etk) etk (etokens self) \<rparr>"

definition protocol_deposit ::
  "protocol \<Rightarrow> int \<Rightarrow> string \<Rightarrow> provider \<Rightarrow> wad \<Rightarrow> protocol \<times> (error + wad)" where
  "protocol_deposit self now etoken_name p amount =
     (case map_of (etokens self) etoken_name of
        None \<Rightarrow> (self, Inl KeyError)
      | Some token \<Rightarrow>
          (case deposit token now p amount of
             (token1, r) \<Rightarrow> (self\<lparr> etokens := AList.update etoken_name token1 (etokens self) \<rparr>, r)))"

definition fast_forward_time :: "int \<Rightarrow> int \<Rightarrow> int" where
  "fast_forward_time now secs = now + secs"

text \<open>
  The first loop of \<^verbatim>\<open>new_policy\<close>, over \<^verbatim>\<open>self.etokens.values()\<close>: the running total and
  the dictionary \<^verbatim>\<open>ocean_per_token\<close>, keyed by the pool's own name.
\<close>

fun ocean_scan ::
  "policy \<Rightarrow> int \<Rightarrow> etoken list \<Rightarrow> wad \<times> (string \<times> wad) list \<Rightarrow> wad \<times> (string \<times> wad) list" where
  "ocean_scan pol now [] acc = acc"
| "ocean_scan pol now (etk # rest) (ocean_sum, ocean_per_token) =
     (if \<not> accepts etk pol now then ocean_scan pol now rest (ocean_sum, ocean_per_token)
      else
        let ocean_token = ocean etk now in
        if ocean_token = 0 then ocean_scan pol now rest (ocean_sum, ocean_per_token)
        else ocean_scan pol now rest
               (ocean_sum + ocean_token, AList.update (name etk) ocean_token ocean_per_token))"

text \<open>
  The second loop, over \<^verbatim>\<open>enumerate(ocean_per_token.items())\<close>. Its state is the pools, the
  policy (for \<^verbatim>\<open>locked_funds\<close>) and \<^verbatim>\<open>mcr_not_locked\<close>; \<open>n\<close> is \<^verbatim>\<open>len(ocean_per_token)\<close> and
  \<open>i\<close> the index. A pool that raised inside \<^verbatim>\<open>lock_mcr\<close> keeps what the call assigned.
\<close>

fun lock_loop ::
  "int \<Rightarrow> wad \<Rightarrow> nat \<Rightarrow> nat \<Rightarrow> (string \<times> wad) list \<Rightarrow>
   (string \<times> etoken) list \<times> policy \<times> wad \<Rightarrow>
   ((string \<times> etoken) list \<times> policy \<times> wad) \<times> (error + unit)" where
  "lock_loop now ocean_sum n i [] st = (st, Inr ())"
| "lock_loop now ocean_sum n i ((token_name, ocean_token) # items) (etks, pol, mcr_not_locked) =
     (case (if int i < int n - 1
            then wad_floordiv (wad_mul (policy_mcr pol) ocean_token) ocean_sum
            else Inr mcr_not_locked) of
        Inl e \<Rightarrow> ((etks, pol, mcr_not_locked), Inl e)
      | Inr mcr_for_token \<Rightarrow>
          (case map_of etks token_name of
             None \<Rightarrow> ((etks, pol, mcr_not_locked), Inl KeyError)
           | Some etk \<Rightarrow>
               (case lock_mcr etk now pol mcr_for_token of
                  (etk1, Inl e) \<Rightarrow>
                    ((AList.update token_name etk1 etks, pol, mcr_not_locked), Inl e)
                | (etk1, Inr u) \<Rightarrow>
                    lock_loop now ocean_sum n (Suc i) items
                      (AList.update token_name etk1 etks,
                       pol\<lparr> locked_funds := locked_funds pol @ [(token_name, mcr_for_token)] \<rparr>,
                       mcr_not_locked - mcr_for_token))))"

text \<open>
  \<^verbatim>\<open>new_policy\<close>. The lookup of the risk module raises \<open>KeyError\<close>; the two assertions are
  \<open>InvalidPolicy\<close> and \<open>InsufficientCapital\<close>. The protocol returned with an error is the
  one the exception leaves behind.
\<close>

definition new_policy ::
  "protocol \<Rightarrow> int \<Rightarrow> string \<Rightarrow> wad \<Rightarrow> wad \<Rightarrow> ray \<Rightarrow> int \<Rightarrow> protocol \<times> (error + policy)" where
  "new_policy self now risk_module_name payout_v premium_v loss_prob_v expiration_v =
     (case map_of (risk_modules self) risk_module_name of
        None \<Rightarrow> (self, Inl KeyError)
      | Some rm \<Rightarrow>
          let start_v = now;
              self1 = self\<lparr> policy_count := policy_count self + 1 \<rparr>;
              pol = Policy_init (policy_count self1) rm payout_v premium_v loss_prob_v
                      start_v expiration_v
          in (case interest_rate pol of
               Inl e \<Rightarrow> (self1, Inl e)
             | Inr r \<Rightarrow>
                 if \<not> r > 0 then (self1, Inl InvalidPolicy)
                 else
                   (case ocean_scan pol now (map snd (etokens self1)) (0, []) of
                      (ocean_sum, ocean_per_token) \<Rightarrow>
                        if \<not> ocean_sum \<ge> policy_mcr pol then (self1, Inl InsufficientCapital)
                        else
                          (case lock_loop now ocean_sum (length ocean_per_token) 0 ocean_per_token
                                  (etokens self1, pol, policy_mcr pol) of
                             ((etks, pol1, rest), Inl e) \<Rightarrow> (self1\<lparr> etokens := etks \<rparr>, Inl e)
                           | ((etks, pol1, rest), Inr u) \<Rightarrow>
                               (self1\<lparr> etokens := etks, policies := policies self1 @ [pol1] \<rparr>,
                                Inr pol1)))))"

section \<open>The allocation rule in the words of the specification\<close>

text \<open>
  The specification describes the allocation of \<^verbatim>\<open>new_policy\<close> by a list of eligible
  pools and a rule for their shares. \<open>claimed_eligible_pools\<close> follows its words: the
  pools, in registration order, that accept the policy and whose ocean is positive.
  \<open>eligible_pools\<close> differs in the one test the source makes instead: the ocean is not
  zero. \<open>spec_allocation\<close> is the rule for the shares: every pool but the last gets the
  \<^verbatim>\<open>Wad\<close> quotient of \<open>mcr * ocean\<close> by the total ocean, the last gets \<open>mcr\<close> minus the
  sum of the earlier shares.
\<close>

definition claimed_eligible_pools :: "protocol \<Rightarrow> policy \<Rightarrow> int \<Rightarrow> (string \<times> wad) list" where
  "claimed_eligible_pools self pol now =
     map (\<lambda>etk. (name etk, ocean etk now))
       (filter (\<lambda>etk. accepts etk pol now \<and> ocean etk now > 0) (map snd (etokens self)))"

definition eligible_pools :: "protocol \<Rightarrow> policy \<Rightarrow> int \<Rightarrow> (string \<times> wad) list" where
  "eligible_pools self pol now =
     map (\<lambda>etk. (name etk, ocean etk now))
       (filter (\<lambda>etk. accepts etk pol now \<and> ocean etk now \<noteq> 0) (map snd (etokens self)))"

definition spec_allocation :: "wad \<Rightarrow> wad \<Rightarrow> (string \<times> wad) list \<Rightarrow> (string \<times> wad) list" where
  "spec_allocation m total_ocean pools =
     (if pools = [] then []
      else
        let earlier = map (\<lambda>(nm, oc). (nm, wad_quot (wad_mul m oc) total_ocean)) (butlast pools)
        in earlier @ [(fst (last pools), m - sum_list (map snd earlier))])"

section \<open>Example states\<close>

text \<open>
  The states the closed theorems below are evaluated on, each built from the
  constructors by the operations of the model. Amounts are whole dollars, the clock
  starts at 0, the risk module \<open>R\<close> has an MCR of 100 percent and no shares, and the
  loss probability is one percent.
\<close>

definition ex_rm :: risk_module where
  "ex_rm = RiskModule_build ''R'' 100 0 0"

definition ex_loss_prob :: ray where
  "ex_loss_prob = ray_quot (ray_from_value 1) (ray_from_value 100)"

definition ex_days :: "int \<Rightarrow> int" where
  "ex_days n = n * 86400"

text \<open>A pool \<open>P\<close> without deposits, alone and registered with the risk module.\<close>

definition ex_empty_pool :: etoken where
  "ex_empty_pool = EToken_init ''P'' SECONDS_IN_YEAR 0"

definition ex_empty_protocol :: protocol where
  "ex_empty_protocol = add_etoken (add_risk_module Protocol_init ex_rm) ex_empty_pool"

text \<open>
  Provider \<open>A\<close> deposits 10000 in \<open>P\<close>; then a policy with payout 1000 and premium 100,
  expiring in 30 days, is issued and locks its MCR of 900 in \<open>P\<close>.
\<close>

definition ex_pool :: etoken where
  "ex_pool = fst (deposit ex_empty_pool 0 ''A'' (wad_from_value 10000))"

definition ex_protocol :: protocol where
  "ex_protocol = fst (protocol_deposit ex_empty_protocol 0 ''P'' ''A'' (wad_from_value 10000))"

definition ex_policy :: policy where
  "ex_policy =
     (Policy_init 1 ex_rm (wad_from_value 1000) (wad_from_value 100) ex_loss_prob 0 (ex_days 30))
       \<lparr> locked_funds := [(''P'', wad_from_value 900)] \<rparr>"

definition ex_locked_pool :: etoken where
  "ex_locked_pool = fst (lock_mcr ex_pool 0 ex_policy (wad_from_value 900))"

text \<open>
  An over-priced policy that has expired when it is bought: payout 100, premium 200,
  expiration 0, requested at the end of day 1. Its MCR is \<open>-100\<close>; its interest rate is
  positive, a negative amount for the providers over a negative duration.
\<close>

definition cx_expired_policy :: policy where
  "cx_expired_policy =
     Policy_init 1 ex_rm (wad_from_value 100) (wad_from_value 200) ex_loss_prob (ex_days 1) 0"

text \<open>The pool \<open>P\<close> of \<open>ex_protocol\<close> after that policy has been issued on it.\<close>

definition cx_negative_rate_pool :: etoken where
  "cx_negative_rate_pool =
     \<lparr> name = ''P'',
       expiration_period = SECONDS_IN_YEAR,
       current_index = RAY,
       last_index_update = ex_days 1,
       balances = [(''A'', wad_from_value 10000)],
       indexes = [(''A'', RAY)],
       timestamps = [(''A'', 0)],
       mcr = - wad_from_value 100,
       mcr_interest_rate = 72635 * 10 ^ 25,
       token_interest_rate = - (72635 * 10 ^ 23) \<rparr>"

text \<open>
  Two pools, \<open>P1\<close> with 3000 from \<open>A\<close> and \<open>P2\<close> with 7000 from \<open>B\<close>, and the policy with
  payout 200 and premium 100 issued on them.
\<close>

definition ex_two_pools :: protocol where
  "ex_two_pools =
     fst (protocol_deposit
            (fst (protocol_deposit
                    (add_etoken
                       (add_etoken (add_risk_module Protocol_init ex_rm)
                          (EToken_init ''P1'' SECONDS_IN_YEAR 0))
                       (EToken_init ''P2'' SECONDS_IN_YEAR 0))
                    0 ''P1'' ''A'' (wad_from_value 3000)))
            0 ''P2'' ''B'' (wad_from_value 7000))"

definition ex_split_policy :: policy where
  "ex_split_policy =
     (Policy_init 1 ex_rm (wad_from_value 200) (wad_from_value 100) ex_loss_prob 0 (ex_days 30))
       \<lparr> locked_funds := [(''P1'', wad_from_value 30), (''P2'', wad_from_value 70)] \<rparr>"

text \<open>
  A pool whose ocean is negative. \<open>A\<close> deposits 1000 in \<open>P1\<close>, a policy with payout 1000
  and premium 100 locks 900 there, and \<open>A\<close> redeems 900: the pool holds 100 against an
  MCR of 900. Then \<open>P2\<close> is registered and \<open>B\<close> deposits 900 in it. The pool object that
  \<^verbatim>\<open>redeem\<close> changed is the one the protocol holds; the model writes it back under
  its name.
\<close>

definition cx_short_step :: protocol where
  "cx_short_step =
     fst (new_policy
            (fst (protocol_deposit
                    (add_etoken (add_risk_module Protocol_init ex_rm)
                       (EToken_init ''P1'' SECONDS_IN_YEAR 0))
                    0 ''P1'' ''A'' (wad_from_value 1000)))
            0 ''R'' (wad_from_value 1000) (wad_from_value 100) ex_loss_prob (ex_days 30))"

definition cx_short_pool :: etoken where
  "cx_short_pool =
     fst (redeem (the (map_of (etokens cx_short_step) ''P1'')) 0 ''A''
            (Some (wad_from_value 900)))"

definition cx_short_protocol :: protocol where
  "cx_short_protocol =
     fst (protocol_deposit
            (add_etoken (add_etoken cx_short_step cx_short_pool)
               (EToken_init ''P2'' SECONDS_IN_YEAR 0))
            0 ''P2'' ''B'' (wad_from_value 900))"

definition cx_short_policy :: policy where
  "cx_short_policy =
     Policy_init 2 ex_rm (wad_from_value 600) (wad_from_value 100) ex_loss_prob 0 (ex_days 30)"

text \<open>A pool \<open>P\<close> with 500 from \<open>A\<close>, for a policy whose MCR is 600.\<close>

definition ex_small_protocol :: protocol where
  "ex_small_protocol =
     fst (protocol_deposit ex_empty_protocol 0 ''P'' ''A'' (wad_from_value 500))"

definition ex_large_policy :: policy where
  "ex_large_policy =
     Policy_init 1 ex_rm (wad_from_value 700) (wad_from_value 100) ex_loss_prob 0 (ex_days 30)"

text \<open>The empty pool after \<open>A\<close> has deposited \<^verbatim>\<open>Wad(0)\<close>.\<close>

definition ex_zero_deposit_pool :: etoken where
  "ex_zero_deposit_pool = fst (deposit ex_empty_pool 0 ''A'' 0)"

text \<open>
  The blended-rate scenario: \<open>A\<close> deposits 1000; a policy at 0.10 per year locks 100,
  then a policy at 0.20 per year locks 300. Both policies run for one year with an MCR
  of 1000 and no expected loss, so their rates are premium over MCR.
\<close>

definition ex_policy_A :: policy where
  "ex_policy_A =
     Policy_init 1 ex_rm (wad_from_value 1100) (wad_from_value 100) 0 0 SECONDS_IN_YEAR"

definition ex_policy_B :: policy where
  "ex_policy_B =
     Policy_init 2 ex_rm (wad_from_value 1200) (wad_from_value 200) 0 0 SECONDS_IN_YEAR"

definition ex_blend_deposited :: etoken where
  "ex_blend_deposited = fst (deposit ex_empty_pool 0 ''A'' (wad_from_value 1000))"

definition ex_blend_first :: etoken where
  "ex_blend_first = fst (lock_mcr ex_blend_deposited 0 ex_policy_A (wad_from_value 100))"

definition ex_blend_second :: etoken where
  "ex_blend_second = fst (lock_mcr ex_blend_first 0 ex_policy_B (wad_from_value 300))"

section \<open>Arithmetic of the fixed-point layer\<close>

lemma sdiv_nonneg_eq_div: "0 \<le> a \<Longrightarrow> 0 < b \<Longrightarrow> a sdiv b = a div (b::int)"
  by (simp add: signed_divide_int_def sgn_if)

lemma sdiv_mult_cancel_right: "k \<noteq> 0 \<Longrightarrow> (a * k) sdiv k = (a::int)"
proof -
  assume k: "k \<noteq> 0"
  have "sgn k * sgn k = 1" using k by (simp add: sgn_if)
  then have "sgn (a * k) * sgn k = sgn a" by (simp add: sgn_mult mult.assoc)
  moreover have "\<bar>a * k\<bar> div \<bar>k\<bar> = \<bar>a\<bar>" using k by (simp add: abs_mult)
  ultimately show ?thesis by (simp add: signed_divide_int_def mult_sgn_abs)
qed

lemma sdiv_mult_mult_right: "0 < k \<Longrightarrow> (a * k) sdiv (b * k) = a sdiv (b::int)"
  by (simp add: signed_divide_int_def abs_mult sgn_mult)

text \<open>Truncation toward zero is monotone in the dividend, for a positive divisor.\<close>

lemma sdiv_mono:
  assumes "a \<le> b" and "0 < k"
  shows "a sdiv k \<le> b sdiv (k::int)"
proof -
  consider "0 \<le> a" | "a < 0" "b < 0" | "a < 0" "0 \<le> b" by linarith
  then show ?thesis
  proof cases
    case 1
    with assms show ?thesis by (simp add: sdiv_nonneg_eq_div zdiv_mono1)
  next
    case 2
    have "\<bar>b\<bar> div k \<le> \<bar>a\<bar> div k" using 2 assms by (intro zdiv_mono1) auto
    with 2 assms show ?thesis by (simp add: signed_divide_int_def sgn_if)
  next
    case 3
    have "0 \<le> \<bar>a\<bar> div k" "0 \<le> b div k" using assms 3 by (auto simp: pos_imp_zdiv_nonneg_iff)
    with 3 assms show ?thesis by (simp add: signed_divide_int_def sgn_if)
  qed
qed

lemma RAY_pos: "0 < RAY"
  by (simp add: RAY_def)

lemma SECONDS_IN_YEAR_pos: "0 < SECONDS_IN_YEAR"
  by (simp add: SECONDS_IN_YEAR_def)

lemma ray_floordiv_year:
  "ray_floordiv x (ray_from_value SECONDS_IN_YEAR) = Inr (ray_quot x (ray_from_value SECONDS_IN_YEAR))"
  by (simp add: ray_floordiv_def ray_from_value_def RAY_def SECONDS_IN_YEAR_def)



section \<open>The index\<close>

text \<open>
  The three fixed-point operations of \<^verbatim>\<open>_calculate_current_index\<close> on raw integers: the
  product with \<^verbatim>\<open>Ray.from_value(dt)\<close> is exact, the product with the rate truncates at
  \<open>RAY\<close>, and the division by \<^verbatim>\<open>Ray.from_value(SECONDS_IN_YEAR)\<close> truncates at the year.
\<close>

lemma calculate_current_index_closed:
  "calculate_current_index self now =
     current_index self +
       ((current_index self * (now - last_index_update self) * token_interest_rate self) sdiv RAY)
         sdiv SECONDS_IN_YEAR"
proof -
  have a: "ray_mul (current_index self) (ray_from_value (now - last_index_update self))
           = current_index self * (now - last_index_update self)"
    using RAY_pos by (simp add: ray_mul_def ray_from_value_def sdiv_mult_cancel_right
        mult.assoc [symmetric])
  have b: "ray_quot x (ray_from_value SECONDS_IN_YEAR) = x sdiv SECONDS_IN_YEAR" for x
    using RAY_pos by (simp add: ray_quot_def ray_from_value_def sdiv_mult_mult_right)
  show ?thesis
    unfolding calculate_current_index_def Let_def a b by (simp add: ray_mul_def)
qed

lemma calculate_current_index_same_time:
  "last_index_update self = now \<Longrightarrow> calculate_current_index self now = current_index self"
  by (simp add: calculate_current_index_closed)

lemma update_current_index_idem:
  "update_current_index (update_current_index self now) now = update_current_index self now"
  by (simp add: update_current_index_def calculate_current_index_same_time)

text \<open>
  C7, as amended. For a pool whose \<^verbatim>\<open>current_index\<close> and \<^verbatim>\<open>token_interest_rate\<close> are not
  negative and for times \<open>t1 \<le> t2\<close>, both read from the same pool state (so with no
  change of rate between them), the index projected by \<^verbatim>\<open>_calculate_current_index\<close> does
  not decrease, and it is the linear projection \<open>current_index + current_index * (t -
  last_index_update) * token_interest_rate / SECONDS_IN_YEAR\<close>, the product truncated
  at the \<^verbatim>\<open>Ray\<close> scale and the quotient at the year.
\<close>

theorem index_monotone:
  assumes "0 \<le> current_index self" and "0 \<le> token_interest_rate self" and "t1 \<le> t2"
  shows "calculate_current_index self t1 \<le> calculate_current_index self t2
       \<and> calculate_current_index self t2 =
           current_index self +
             ((current_index self * (t2 - last_index_update self) * token_interest_rate self)
                sdiv RAY) sdiv SECONDS_IN_YEAR"
proof -
  let ?c = "current_index self" and ?r = "token_interest_rate self"
  let ?l = "last_index_update self"
  have "?c * (t1 - ?l) \<le> ?c * (t2 - ?l)"
    using assms by (intro mult_left_mono) auto
  then have "?c * (t1 - ?l) * ?r \<le> ?c * (t2 - ?l) * ?r"
    using assms by (intro mult_right_mono) auto
  then have "(?c * (t1 - ?l) * ?r) sdiv RAY \<le> (?c * (t2 - ?l) * ?r) sdiv RAY"
    by (rule sdiv_mono) (rule RAY_pos)
  then have "((?c * (t1 - ?l) * ?r) sdiv RAY) sdiv SECONDS_IN_YEAR
           \<le> ((?c * (t2 - ?l) * ?r) sdiv RAY) sdiv SECONDS_IN_YEAR"
    by (rule sdiv_mono) (rule SECONDS_IN_YEAR_pos)
  then show ?thesis
    by (simp add: calculate_current_index_closed)
qed

text \<open>
  The pool with 10000 deposited and 900 locked has a positive rate; its index after 30
  days is not below its index at time 0.
\<close>

theorem index_monotone_witness:
  "0 \<le> current_index ex_locked_pool \<and> 0 \<le> token_interest_rate ex_locked_pool
   \<and> 0 \<le> ex_days 30
   \<and> calculate_current_index ex_locked_pool 0 \<le> calculate_current_index ex_locked_pool (ex_days 30)"
proof -
  have a: "0 \<le> current_index ex_locked_pool" by code_simp
  have b: "0 \<le> token_interest_rate ex_locked_pool" by code_simp
  have c: "0 \<le> ex_days 30" by code_simp
  from index_monotone [OF a b c] a b c show ?thesis by simp
qed

text \<open>
  C7 as stated, for any pool, fails. \<^verbatim>\<open>new_policy\<close> accepts the expired, over-priced
  policy (its interest rate is positive), locks its MCR of \<open>-100\<close> in the pool \<open>P\<close> that
  holds 10000, and leaves the pool with a negative \<^verbatim>\<open>token_interest_rate\<close>: one year
  later the projected index is below the index at the time of the call.
\<close>

theorem index_monotone_counterexample:
  "map_of (etokens (fst (new_policy ex_protocol (ex_days 1) ''R'' (wad_from_value 100)
                           (wad_from_value 200) ex_loss_prob 0))) ''P''
     = Some cx_negative_rate_pool
   \<and> ex_days 1 \<le> ex_days 1 + SECONDS_IN_YEAR
   \<and> calculate_current_index cx_negative_rate_pool (ex_days 1) = RAY
   \<and> calculate_current_index cx_negative_rate_pool (ex_days 1 + SECONDS_IN_YEAR)
       = RAY - 72635 * 10 ^ 23
   \<and> calculate_current_index cx_negative_rate_pool (ex_days 1 + SECONDS_IN_YEAR)
       < calculate_current_index cx_negative_rate_pool (ex_days 1)"
  by code_simp

section \<open>The total supply\<close>

text \<open>
  C8. \<^verbatim>\<open>total_supply()\<close> is a read-only projection: the pool after the call is the pool
  before it, with \<^verbatim>\<open>current_index\<close>, \<^verbatim>\<open>last_index_update\<close> and every other field as they
  were, and the value returned is the sum of the stored scaled balances, taken to the
  \<^verbatim>\<open>Ray\<close> scale, multiplied by the index projected to \<open>now\<close> and taken back to a \<^verbatim>\<open>Wad\<close>.
\<close>

theorem total_supply_read_only:
  "total_supply self now =
     (self,
      to_wad (ray_mul (to_ray (sum_list (map snd (balances self))))
        (current_index self +
           ((current_index self * (now - last_index_update self) * token_interest_rate self)
              sdiv RAY) sdiv SECONDS_IN_YEAR)))"
  by (simp add: total_supply_def calculate_current_index_closed)

section \<open>Locking capital\<close>

text \<open>
  C6. After a call of \<^verbatim>\<open>lock_mcr\<close> that returns, \<^verbatim>\<open>token_interest_rate\<close> is
  \<^verbatim>\<open>mcr_interest_rate * mcr.to_ray() // total_supply().to_ray()\<close> with every operand read from
  the pool after the call: the total supply of the pool after the call, whose index
  has been realized, is the one the call read before it realized the index.
\<close>

theorem lock_mcr_token_rate:
  assumes "lock_mcr self now pol amount = (self', Inr ())"
  shows "ray_floordiv (ray_mul (mcr_interest_rate self') (to_ray (mcr self')))
           (to_ray (snd (total_supply self' now))) = Inr (token_interest_rate self')"
proof -
  define sup0 where "sup0 = snd (total_supply self now)"
  have ts: "total_supply self now = (self, sup0)"
    by (simp add: sup0_def total_supply_def)
  have frame: "snd (total_supply (update_current_index self now
                 \<lparr> mcr := m, mcr_interest_rate := r, token_interest_rate := t \<rparr>) now) = sup0"
    for m r t
    by (simp add: total_supply_def sup0_def update_current_index_def
        calculate_current_index_same_time)
  from assms obtain m r q where
    post: "self' = update_current_index self now
             \<lparr> mcr := m, mcr_interest_rate := r, token_interest_rate := q \<rparr>"
    and q: "ray_floordiv (ray_mul r (to_ray m)) (to_ray sup0) = Inr q"
    unfolding lock_mcr_def ts Let_def
    by (auto split: if_splits sum.splits prod.splits)
  show ?thesis
    by (simp add: post frame q)
qed

theorem lock_mcr_token_rate_witness:
  "lock_mcr ex_pool 0 ex_policy (wad_from_value 900) = (ex_locked_pool, Inr ())
   \<and> ray_floordiv (ray_mul (mcr_interest_rate ex_locked_pool) (to_ray (mcr ex_locked_pool)))
        (to_ray (snd (total_supply ex_locked_pool 0))) = Inr (token_interest_rate ex_locked_pool)"
proof -
  have h: "lock_mcr ex_pool 0 ex_policy (wad_from_value 900) = (ex_locked_pool, Inr ())"
    by code_simp
  from lock_mcr_token_rate [OF h] h show ?thesis by simp
qed

text \<open>
  C5, at its own example. With 1000 deposited, the policy at 0.10 per year locks 100
  and the policy at 0.20 per year locks 300; both calls return. The first sets
  \<^verbatim>\<open>mcr_interest_rate\<close> to the policy's rate. The second divides the weighted sum, a \<^verbatim>\<open>Ray\<close>,
  by \<^verbatim>\<open>self.mcr\<close>, a \<^verbatim>\<open>Wad\<close> that is not taken to the \<^verbatim>\<open>Ray\<close> scale: the rate it stores
  is \<open>175 * 10^33\<close>, the weighted mean 0.175 (\<open>175 * 10^24\<close> as a \<^verbatim>\<open>Ray\<close>) times \<open>10^9\<close>.
\<close>

theorem lock_mcr_blended_rate_defect:
  "interest_rate ex_policy_A = Inr (10 ^ 26)
   \<and> interest_rate ex_policy_B = Inr (2 * 10 ^ 26)
   \<and> lock_mcr ex_blend_deposited 0 ex_policy_A (wad_from_value 100) = (ex_blend_first, Inr ())
   \<and> mcr_interest_rate ex_blend_first = 10 ^ 26
   \<and> lock_mcr ex_blend_first 0 ex_policy_B (wad_from_value 300) = (ex_blend_second, Inr ())
   \<and> mcr ex_blend_second = wad_from_value 400
   \<and> mcr_interest_rate ex_blend_second = 175 * 10 ^ 33
   \<and> mcr_interest_rate ex_blend_second \<noteq> 175 * 10 ^ 24"
  by code_simp

section \<open>Deposits and redemptions\<close>






text \<open>
  C10. A provider whose visible balance is zero is not removed by \<^verbatim>\<open>redeem\<close>: whatever
  the amount asked for (\<open>None\<close> asks for everything), the call returns \<^verbatim>\<open>Wad(0)\<close> and
  leaves the three provider-keyed maps as they were, so the entries of a tracked
  provider stay in place.
\<close>

theorem redeem_zero_balance_keeps_entries:
  assumes "snd (balance_of self now p) = Inr 0"
  shows "snd (redeem self now p amount) = Inr 0
       \<and> balances (fst (redeem self now p amount)) = balances self
       \<and> indexes (fst (redeem self now p amount)) = indexes self
       \<and> timestamps (fst (redeem self now p amount)) = timestamps self"
proof -
  obtain self1 where b: "balance_of self now p = (self1, Inr 0)"
    using assms by (cases "balance_of self now p") auto
  have m: "balances self1 = balances self \<and> indexes self1 = indexes self
         \<and> timestamps self1 = timestamps self"
    using b by (auto simp: balance_of_def update_current_index_def Let_def
        split: option.splits sum.splits)
  have "redeem self now p amount = (self1, Inr 0)"
    by (simp add: redeem_def b)
  with m show ?thesis by simp
qed

text \<open>
  The state is reachable: after \<^verbatim>\<open>deposit(A, Wad(0))\<close> on the empty pool, \<open>A\<close> is tracked
  with a visible balance of zero, and a redemption of 5 returns zero and keeps the
  three entries.
\<close>

theorem redeem_zero_balance_keeps_entries_witness:
  "snd (balance_of ex_zero_deposit_pool 0 ''A'') = Inr 0
   \<and> balances ex_zero_deposit_pool = [(''A'', 0)]
   \<and> indexes ex_zero_deposit_pool = [(''A'', RAY)]
   \<and> timestamps ex_zero_deposit_pool = [(''A'', 0)]
   \<and> snd (redeem ex_zero_deposit_pool 0 ''A'' (Some (wad_from_value 5))) = Inr 0
   \<and> balances (fst (redeem ex_zero_deposit_pool 0 ''A'' (Some (wad_from_value 5)))) = [(''A'', 0)]
   \<and> indexes (fst (redeem ex_zero_deposit_pool 0 ''A'' (Some (wad_from_value 5)))) = [(''A'', RAY)]
   \<and> timestamps (fst (redeem ex_zero_deposit_pool 0 ''A'' (Some (wad_from_value 5))))
       = [(''A'', 0)]"
proof -
  have a: "snd (balance_of ex_zero_deposit_pool 0 ''A'') = Inr 0" by code_simp
  have b: "balances ex_zero_deposit_pool = [(''A'', 0)]" by code_simp
  have c: "indexes ex_zero_deposit_pool = [(''A'', RAY)]" by code_simp
  have d: "timestamps ex_zero_deposit_pool = [(''A'', 0)]" by code_simp
  from redeem_zero_balance_keeps_entries [OF a, of "Some (wad_from_value 5)"] a b c d
  show ?thesis by simp
qed

section \<open>Issuing a policy\<close>

subsection \<open>The two loops\<close>

lemma update_fresh: "k \<notin> fst ` set al \<Longrightarrow> AList.update k v al = al @ [(k, v)]"
  by (induction al) auto

lemma ocean_scan_total:
  "fst (ocean_scan pol now es (t, opt)) =
     t + sum_list (map (\<lambda>etk. ocean etk now)
           (filter (\<lambda>etk. accepts etk pol now \<and> ocean etk now \<noteq> 0) es))"
  by (induction es arbitrary: t opt) (auto simp: Let_def)

lemma ocean_scan_items:
  "distinct (map name es) \<Longrightarrow> fst ` set opt \<inter> name ` set es = {} \<Longrightarrow>
   snd (ocean_scan pol now es (t, opt)) =
     opt @ map (\<lambda>etk. (name etk, ocean etk now))
             (filter (\<lambda>etk. accepts etk pol now \<and> ocean etk now \<noteq> 0) es)"
proof (induction es arbitrary: t opt)
  case Nil
  then show ?case by simp
next
  case (Cons e es)
  have fresh: "name e \<notin> fst ` set opt" using Cons.prems(2) by auto
  have d: "distinct (map name es)" using Cons.prems(1) by simp
  have i1: "fst ` set opt \<inter> name ` set es = {}" using Cons.prems(2) by auto
  have i2: "fst ` set (opt @ [(name e, v)]) \<inter> name ` set es = {}" for v
    using Cons.prems by auto
  show ?case
    using Cons.IH [OF d i1] Cons.IH [OF d i2]
    by (simp add: Let_def update_fresh [OF fresh])
qed

lemma ocean_scan_nonempty:
  "opt \<noteq> [] \<Longrightarrow> snd (ocean_scan pol now es (t, opt)) \<noteq> []"
  by (induction es arbitrary: t opt) (auto simp: Let_def)

lemma ocean_scan_empty:
  "snd (ocean_scan pol now es (t, [])) = [] \<Longrightarrow> fst (ocean_scan pol now es (t, [])) = t"
proof (induction es arbitrary: t)
  case Nil
  then show ?case by simp
next
  case (Cons e es)
  show ?case
  proof (cases "accepts e pol now \<and> ocean e now \<noteq> 0")
    case True
    then have "snd (ocean_scan pol now (e # es) (t, [])) \<noteq> []"
      by (simp add: Let_def ocean_scan_nonempty)
    with Cons.prems show ?thesis by simp
  next
    case False
    then have "ocean_scan pol now (e # es) (t, []) = ocean_scan pol now es (t, [])"
      by (auto simp: Let_def)
    with Cons show ?thesis by simp
  qed
qed

lemma eligible_pools_total:
  "sum_list (map snd (eligible_pools self pol now)) =
     fst (ocean_scan pol now (map snd (etokens self)) (0, []))"
  by (simp add: eligible_pools_def ocean_scan_total comp_def)

text \<open>
  A run of the second loop that returns has changed the policy in \<^verbatim>\<open>locked_funds\<close> only,
  by one entry for each item: the truncated share for every item but the last, and
  what was left for the last.
\<close>

lemma lock_loop_funds:
  assumes "lock_loop now tot n i items (etks, pol, remaining) = ((etks1, pol1, rest), Inr u)"
    and "i + length items = n"
  shows "pol1 = pol\<lparr> locked_funds := locked_funds pol
                         @ (if items = [] then []
                            else map (\<lambda>(nm, oc). (nm, wad_quot (wad_mul (policy_mcr pol) oc) tot))
                                   (butlast items)
                                 @ [(fst (last items),
                                     remaining - sum_list (map (\<lambda>(nm, oc).
                                        wad_quot (wad_mul (policy_mcr pol) oc) tot) (butlast items)))]) \<rparr>"
  using assms
proof (induction items arbitrary: i etks pol remaining)
  case Nil
  then show ?case by simp
next
  case (Cons it items)
  obtain nm oc where it: "it = (nm, oc)" by (cases it)
  show ?case
  proof (cases "items = []")
    case True
    with Cons.prems it show ?thesis
      by (auto simp: wad_floordiv_def split: if_splits sum.splits option.splits prod.splits)
  next
    case False
    then have lt: "int i < int n - 1" using Cons.prems(2) by (cases items) auto
    define share where "share = wad_quot (wad_mul (policy_mcr pol) oc) tot"
    from Cons.prems(1) it lt obtain etk etk1 where
      rec: "lock_loop now tot n (Suc i) items
              (AList.update nm etk1 etks,
               pol\<lparr> locked_funds := locked_funds pol @ [(nm, share)] \<rparr>,
               remaining - share) = ((etks1, pol1, rest), Inr u)"
      by (auto simp: wad_floordiv_def share_def split: if_splits sum.splits option.splits prod.splits)
    have len: "Suc i + length items = n" using Cons.prems(2) by simp
    show ?thesis
      using Cons.IH [OF rec len] False it
      by (simp add: share_def case_prod_beta algebra_simps)
  qed
qed

lemma spec_allocation_sum:
  "pools \<noteq> [] \<Longrightarrow> sum_list (map snd (spec_allocation m tot pools)) = m"
  by (simp add: spec_allocation_def Let_def)

lemma spec_allocation_alt:
  "spec_allocation m tot pools =
     (if pools = [] then []
      else map (\<lambda>(nm, oc). (nm, wad_quot (wad_mul m oc) tot)) (butlast pools)
           @ [(fst (last pools),
               m - sum_list (map (\<lambda>(nm, oc). wad_quot (wad_mul m oc) tot) (butlast pools)))])"
  by (simp add: spec_allocation_def Let_def comp_def split_def)

subsection \<open>The outcomes of a call\<close>

lemma new_policy_KeyError:
  "map_of (risk_modules self) nm = None \<Longrightarrow>
   new_policy self now nm payout_v premium_v lp ex = (self, Inl KeyError)"
  by (simp add: new_policy_def)

lemma new_policy_rate_error:
  "map_of (risk_modules self) nm = Some rm \<Longrightarrow>
   interest_rate (Policy_init (policy_count self + 1) rm payout_v premium_v lp now ex) = Inl e \<Longrightarrow>
   new_policy self now nm payout_v premium_v lp ex =
     (self\<lparr> policy_count := policy_count self + 1 \<rparr>, Inl e)"
  by (simp add: new_policy_def)

lemma new_policy_InvalidPolicy:
  "map_of (risk_modules self) nm = Some rm \<Longrightarrow>
   interest_rate (Policy_init (policy_count self + 1) rm payout_v premium_v lp now ex) = Inr r \<Longrightarrow>
   \<not> 0 < r \<Longrightarrow>
   new_policy self now nm payout_v premium_v lp ex =
     (self\<lparr> policy_count := policy_count self + 1 \<rparr>, Inl InvalidPolicy)"
  by (simp add: new_policy_def)

lemma new_policy_short:
  "map_of (risk_modules self) nm = Some rm \<Longrightarrow>
   pol0 = Policy_init (policy_count self + 1) rm payout_v premium_v lp now ex \<Longrightarrow>
   interest_rate pol0 = Inr r \<Longrightarrow> 0 < r \<Longrightarrow>
   fst (ocean_scan pol0 now (map snd (etokens self)) (0, [])) < policy_mcr pol0 \<Longrightarrow>
   new_policy self now nm payout_v premium_v lp ex =
     (self\<lparr> policy_count := policy_count self + 1 \<rparr>, Inl InsufficientCapital)"
  by (simp add: new_policy_def split_def)

lemma new_policy_locking:
  "map_of (risk_modules self) nm = Some rm \<Longrightarrow>
   pol0 = Policy_init (policy_count self + 1) rm payout_v premium_v lp now ex \<Longrightarrow>
   interest_rate pol0 = Inr r \<Longrightarrow> 0 < r \<Longrightarrow>
   sc = ocean_scan pol0 now (map snd (etokens self)) (0, []) \<Longrightarrow>
   policy_mcr pol0 \<le> fst sc \<Longrightarrow>
   lock_loop now (fst sc) (length (snd sc)) 0 (snd sc) (etokens self, pol0, policy_mcr pol0)
     = ((etks, pol1, rest), res) \<Longrightarrow>
   new_policy self now nm payout_v premium_v lp ex =
     (case res of
        Inl e \<Rightarrow> (self\<lparr> policy_count := policy_count self + 1, etokens := etks \<rparr>, Inl e)
      | Inr u \<Rightarrow> (self\<lparr> policy_count := policy_count self + 1, etokens := etks,
                        policies := policies self @ [pol1] \<rparr>, Inr pol1))"
  by (cases res) (simp_all add: new_policy_def split_def)

text \<open>What a call that issues a policy has done.\<close>

lemma new_policy_issued:
  assumes "snd (new_policy self now nm payout_v premium_v lp ex) = Inr pol"
  obtains rm pol0 r where
    "map_of (risk_modules self) nm = Some rm"
    "pol0 = Policy_init (policy_count self + 1) rm payout_v premium_v lp now ex"
    "interest_rate pol0 = Inr r" "0 < r"
    "policy_mcr pol0 \<le> fst (ocean_scan pol0 now (map snd (etokens self)) (0, []))"
    "pol = pol0\<lparr> locked_funds :=
              spec_allocation (policy_mcr pol0)
                (fst (ocean_scan pol0 now (map snd (etokens self)) (0, [])))
                (snd (ocean_scan pol0 now (map snd (etokens self)) (0, []))) \<rparr>"
proof -
  obtain rm where rm: "map_of (risk_modules self) nm = Some rm"
    using assms new_policy_KeyError [of self nm now payout_v premium_v lp ex]
    by (cases "map_of (risk_modules self) nm") auto
  define pol0 where "pol0 = Policy_init (policy_count self + 1) rm payout_v premium_v lp now ex"
  define sc where "sc = ocean_scan pol0 now (map snd (etokens self)) (0, [])"
  obtain r where r: "interest_rate pol0 = Inr r"
    using assms new_policy_rate_error [OF rm, of payout_v premium_v lp now ex]
    by (cases "interest_rate pol0") (auto simp: pol0_def)
  have pos: "0 < r"
    using assms new_policy_InvalidPolicy [OF rm r [unfolded pol0_def]] by (cases "0 < r") auto
  have cap: "policy_mcr pol0 \<le> fst sc"
    using assms new_policy_short [OF rm pol0_def r pos]
    by (cases "policy_mcr pol0 \<le> fst sc") (auto simp: sc_def)
  obtain etks pol1 rest res where
    loop: "lock_loop now (fst sc) (length (snd sc)) 0 (snd sc)
             (etokens self, pol0, policy_mcr pol0) = ((etks, pol1, rest), res)"
    by (metis prod.exhaust)
  from assms new_policy_locking [OF rm pol0_def r pos sc_def cap loop]
  obtain u where res: "res = Inr u" and p1: "pol1 = pol"
    by (cases res) auto
  have lf0: "locked_funds pol0 = []" by (simp add: pol0_def Policy_init_def)
  have "pol = pol0\<lparr> locked_funds := spec_allocation (policy_mcr pol0) (fst sc) (snd sc) \<rparr>"
    using lock_loop_funds [OF loop [unfolded res p1]] by (simp add: lf0 spec_allocation_alt)
  with rm r pos cap show ?thesis
    using that [of rm pol0 r] by (simp add: pol0_def sc_def)
qed

subsection \<open>Conservation of the MCR\<close>

text \<open>
  C1, as amended. For every policy that \<^verbatim>\<open>new_policy\<close> issues with a positive MCR, or
  with at least one entry in \<^verbatim>\<open>locked_funds\<close>, the amounts in \<^verbatim>\<open>policy.locked_funds\<close> add up
  to \<^verbatim>\<open>policy.mcr\<close>, as integers.
\<close>

theorem new_policy_mcr_conservation:
  assumes "snd (new_policy self now nm payout_v premium_v lp ex) = Inr pol"
    and "0 < policy_mcr pol \<or> locked_funds pol \<noteq> []"
  shows "sum_list (map snd (locked_funds pol)) = policy_mcr pol"
proof -
  from assms(1) obtain rm pol0 r where
    cap: "policy_mcr pol0 \<le> fst (ocean_scan pol0 now (map snd (etokens self)) (0, []))"
    and pol: "pol = pol0\<lparr> locked_funds :=
              spec_allocation (policy_mcr pol0)
                (fst (ocean_scan pol0 now (map snd (etokens self)) (0, [])))
                (snd (ocean_scan pol0 now (map snd (etokens self)) (0, []))) \<rparr>"
    by (rule new_policy_issued)
  have "snd (ocean_scan pol0 now (map snd (etokens self)) (0, [])) \<noteq> []"
  proof
    assume e: "snd (ocean_scan pol0 now (map snd (etokens self)) (0, [])) = []"
    then have "fst (ocean_scan pol0 now (map snd (etokens self)) (0, [])) = 0"
      by (rule ocean_scan_empty)
    with cap e assms(2) pol show False by (simp add: spec_allocation_def)
  qed
  then show ?thesis by (simp add: pol spec_allocation_sum)
qed

theorem new_policy_mcr_conservation_witness:
  "snd (new_policy ex_protocol 0 ''R'' (wad_from_value 1000) (wad_from_value 100)
          ex_loss_prob (ex_days 30)) = Inr ex_policy
   \<and> 0 < policy_mcr ex_policy
   \<and> locked_funds ex_policy = [(''P'', wad_from_value 900)]
   \<and> sum_list (map snd (locked_funds ex_policy)) = policy_mcr ex_policy"
proof -
  have h: "snd (new_policy ex_protocol 0 ''R'' (wad_from_value 1000) (wad_from_value 100)
                 ex_loss_prob (ex_days 30)) = Inr ex_policy"
    by code_simp
  have p: "0 < policy_mcr ex_policy"
    by code_simp
  have l: "locked_funds ex_policy = [(''P'', wad_from_value 900)]"
    by code_simp
  from new_policy_mcr_conservation [OF h disjI1 [OF p]] h p l show ?thesis
    by simp
qed

text \<open>
  C1 as stated, for every issued policy, fails. Nothing in \<^verbatim>\<open>new_policy\<close> rejects a
  premium above the payout or an expiration before the start: the expired,
  over-priced policy has a positive interest rate and an MCR of \<open>-100\<close>. With no
  eligible pool (the only pool has no deposits) the total ocean is 0, not below the
  MCR, the second loop has nothing to run over, and the policy is issued with empty
  \<^verbatim>\<open>locked_funds\<close>, whose sum is 0.
\<close>

theorem new_policy_mcr_conservation_counterexample:
  "snd (new_policy ex_empty_protocol (ex_days 1) ''R'' (wad_from_value 100) (wad_from_value 200)
          ex_loss_prob 0) = Inr cx_expired_policy
   \<and> locked_funds cx_expired_policy = []
   \<and> policy_mcr cx_expired_policy = - wad_from_value 100
   \<and> sum_list (map snd (locked_funds cx_expired_policy)) \<noteq> policy_mcr cx_expired_policy"
  by code_simp

subsection \<open>The allocation\<close>

text \<open>
  C2, as amended. In a protocol whose pools have distinct names, the eligible pools of
  \<^verbatim>\<open>new_policy\<close> are those that accept the policy and whose ocean is not zero, in
  registration order; a call that issues a policy has allocated to every eligible
  pool but the last the \<^verbatim>\<open>Wad\<close> quotient \<^verbatim>\<open>policy.mcr * pool.ocean // total_ocean\<close>
  (product and quotient truncating), and to the last eligible pool \<^verbatim>\<open>policy.mcr\<close> minus
  the sum of the earlier allocations; \<^verbatim>\<open>total_ocean\<close> is the sum of the oceans of the
  eligible pools.
\<close>

theorem new_policy_allocation:
  assumes "snd (new_policy self now nm payout_v premium_v lp ex) = Inr pol"
    and "distinct (map name (map snd (etokens self)))"
  shows "locked_funds pol =
           spec_allocation (policy_mcr pol) (sum_list (map snd (eligible_pools self pol now)))
             (eligible_pools self pol now)"
proof -
  from assms(1) obtain rm pol0 r where
    pol: "pol = pol0\<lparr> locked_funds :=
              spec_allocation (policy_mcr pol0)
                (fst (ocean_scan pol0 now (map snd (etokens self)) (0, [])))
                (snd (ocean_scan pol0 now (map snd (etokens self)) (0, []))) \<rparr>"
    by (rule new_policy_issued)
  define sc where "sc = ocean_scan pol0 now (map snd (etokens self)) (0, [])"
  have lf: "locked_funds pol = spec_allocation (policy_mcr pol0) (fst sc) (snd sc)"
    and m: "policy_mcr pol = policy_mcr pol0"
    and ex: "expiration pol = expiration pol0"
    by (simp_all add: pol sc_def)
  have acc: "accepts etk pol now = accepts etk pol0 now" for etk
    by (simp add: accepts_def ex)
  have el: "eligible_pools self pol now =
      map (\<lambda>etk. (name etk, ocean etk now))
        (filter (\<lambda>etk. accepts etk pol0 now \<and> ocean etk now \<noteq> 0) (map snd (etokens self)))"
    by (simp add: eligible_pools_def acc)
  have items: "snd sc = eligible_pools self pol now"
    unfolding el sc_def using ocean_scan_items [OF assms(2), of "[]" pol0 now 0] by simp
  have "fst sc = sum_list (map snd (eligible_pools self pol now))"
    unfolding el sc_def by (simp add: ocean_scan_total comp_def)
  then show ?thesis
    by (simp only: lf m items)
qed

text \<open>
  Pools with oceans 3000 and 7000 and a policy with an MCR of 100: \<open>P1\<close> locks 30 and
  \<open>P2\<close> locks the remaining 70.
\<close>

theorem new_policy_allocation_witness:
  "snd (new_policy ex_two_pools 0 ''R'' (wad_from_value 200) (wad_from_value 100)
          ex_loss_prob (ex_days 30)) = Inr ex_split_policy
   \<and> distinct (map name (map snd (etokens ex_two_pools)))
   \<and> eligible_pools ex_two_pools ex_split_policy 0
       = [(''P1'', wad_from_value 3000), (''P2'', wad_from_value 7000)]
   \<and> locked_funds ex_split_policy = [(''P1'', wad_from_value 30), (''P2'', wad_from_value 70)]
   \<and> locked_funds ex_split_policy =
       spec_allocation (policy_mcr ex_split_policy)
         (sum_list (map snd (eligible_pools ex_two_pools ex_split_policy 0)))
         (eligible_pools ex_two_pools ex_split_policy 0)"
proof -
  have h: "snd (new_policy ex_two_pools 0 ''R'' (wad_from_value 200) (wad_from_value 100)
                 ex_loss_prob (ex_days 30)) = Inr ex_split_policy"
    by code_simp
  have d: "distinct (map name (map snd (etokens ex_two_pools)))"
    by code_simp
  have e: "eligible_pools ex_two_pools ex_split_policy 0
             = [(''P1'', wad_from_value 3000), (''P2'', wad_from_value 7000)]"
    by code_simp
  have l: "locked_funds ex_split_policy = [(''P1'', wad_from_value 30), (''P2'', wad_from_value 70)]"
    by code_simp
  from new_policy_allocation [OF h d] h d e l show ?thesis
    by simp
qed

text \<open>
  C2 as stated, with eligibility as a positive ocean, fails: the source skips a pool
  whose ocean is zero and keeps one whose ocean is negative. \<open>P1\<close> holds 100 against an
  MCR of 900, an ocean of \<open>-800\<close>, and \<open>P2\<close> has an ocean of 900. For a policy with an
  MCR of 500 the first loop keeps both pools and a total of 100, while the pools with
  a positive ocean are \<open>P2\<close> alone, with 900, enough for the policy; the call fails
  with \<open>InsufficientCapital\<close>.
\<close>

theorem new_policy_allocation_counterexample:
  "ocean_scan cx_short_policy 0 (map snd (etokens cx_short_protocol)) (0, [])
     = (wad_from_value 100, [(''P1'', - wad_from_value 800), (''P2'', wad_from_value 900)])
   \<and> eligible_pools cx_short_protocol cx_short_policy 0
       = [(''P1'', - wad_from_value 800), (''P2'', wad_from_value 900)]
   \<and> claimed_eligible_pools cx_short_protocol cx_short_policy 0 = [(''P2'', wad_from_value 900)]
   \<and> policy_mcr cx_short_policy = wad_from_value 500
   \<and> policy_mcr cx_short_policy
       \<le> sum_list (map snd (claimed_eligible_pools cx_short_protocol cx_short_policy 0))
   \<and> snd (new_policy cx_short_protocol 0 ''R'' (wad_from_value 600) (wad_from_value 100)
            ex_loss_prob (ex_days 30)) = Inl InsufficientCapital"
  by code_simp

subsection \<open>Failed calls\<close>

text \<open>
  C3, as amended. When the risk module is registered, the interest rate of the policy
  is positive and the total ocean of the eligible pools is below \<^verbatim>\<open>policy.mcr\<close>,
  \<^verbatim>\<open>new_policy\<close> fails with \<open>InsufficientCapital\<close> and leaves every pool, the risk modules
  and the list of policies as they were; \<^verbatim>\<open>policy_count\<close> has been incremented.
\<close>

theorem new_policy_insufficient_capital:
  assumes "map_of (risk_modules self) nm = Some rm"
    and "pol0 = Policy_init (policy_count self + 1) rm payout_v premium_v lp now ex"
    and "interest_rate pol0 = Inr r" and "0 < r"
    and "sum_list (map snd (eligible_pools self pol0 now)) < policy_mcr pol0"
  shows "snd (new_policy self now nm payout_v premium_v lp ex) = Inl InsufficientCapital
       \<and> etokens (fst (new_policy self now nm payout_v premium_v lp ex)) = etokens self
       \<and> risk_modules (fst (new_policy self now nm payout_v premium_v lp ex)) = risk_modules self
       \<and> policies (fst (new_policy self now nm payout_v premium_v lp ex)) = policies self
       \<and> policy_count (fst (new_policy self now nm payout_v premium_v lp ex))
           = policy_count self + 1"
proof -
  have "fst (ocean_scan pol0 now (map snd (etokens self)) (0, [])) < policy_mcr pol0"
    using assms(5) by (simp add: eligible_pools_total)
  from new_policy_short [OF assms(1-4) this] show ?thesis by simp
qed

theorem new_policy_insufficient_capital_witness:
  "map_of (risk_modules ex_small_protocol) ''R'' = Some ex_rm
   \<and> ex_large_policy = Policy_init (policy_count ex_small_protocol + 1) ex_rm
        (wad_from_value 700) (wad_from_value 100) ex_loss_prob 0 (ex_days 30)
   \<and> interest_rate ex_large_policy = Inr 1885833333333333333000000000
   \<and> sum_list (map snd (eligible_pools ex_small_protocol ex_large_policy 0)) = wad_from_value 500
   \<and> policy_mcr ex_large_policy = wad_from_value 600
   \<and> snd (new_policy ex_small_protocol 0 ''R'' (wad_from_value 700) (wad_from_value 100)
            ex_loss_prob (ex_days 30)) = Inl InsufficientCapital
   \<and> etokens (fst (new_policy ex_small_protocol 0 ''R'' (wad_from_value 700) (wad_from_value 100)
                      ex_loss_prob (ex_days 30))) = etokens ex_small_protocol"
proof -
  have a: "map_of (risk_modules ex_small_protocol) ''R'' = Some ex_rm" by code_simp
  have p: "ex_large_policy = Policy_init (policy_count ex_small_protocol + 1) ex_rm
             (wad_from_value 700) (wad_from_value 100) ex_loss_prob 0 (ex_days 30)"
    by code_simp
  have b: "interest_rate ex_large_policy = Inr 1885833333333333333000000000" by code_simp
  have c: "(0::int) < 1885833333333333333000000000" by simp
  have d: "sum_list (map snd (eligible_pools ex_small_protocol ex_large_policy 0))
             = wad_from_value 500"
    by code_simp
  have e: "policy_mcr ex_large_policy = wad_from_value 600" by code_simp
  have f: "sum_list (map snd (eligible_pools ex_small_protocol ex_large_policy 0))
             < policy_mcr ex_large_policy"
    unfolding d e by (simp add: wad_from_value_def WAD_def)
  from new_policy_insufficient_capital [OF a p b c f] a p b d e show ?thesis
    by simp
qed

text \<open>
  C3 as stated, with no state of the coordinator changed, fails: the pool holds 500,
  the policy needs 600, the call fails with \<open>InsufficientCapital\<close>, and \<^verbatim>\<open>policy_count\<close>
  has gone from 0 to 1.
\<close>

theorem new_policy_insufficient_capital_counterexample:
  "snd (new_policy ex_small_protocol 0 ''R'' (wad_from_value 700) (wad_from_value 100)
          ex_loss_prob (ex_days 30)) = Inl InsufficientCapital
   \<and> policy_count ex_small_protocol = 0
   \<and> policy_count (fst (new_policy ex_small_protocol 0 ''R'' (wad_from_value 700)
                           (wad_from_value 100) ex_loss_prob (ex_days 30))) = 1"
  by code_simp

text \<open>
  C9, as amended. Every call of \<^verbatim>\<open>new_policy\<close> that finds its risk module increments
  \<^verbatim>\<open>policy_count\<close> by one, whatever happens afterwards: a call that fails in a later
  check or while locking leaves the counter incremented and the list of policies
  unchanged, and a call that succeeds appends one policy whose \<^verbatim>\<open>policy_id\<close> is the
  new counter. So the identifiers of issued policies need not be consecutive, and
  \<^verbatim>\<open>policy_count\<close> can exceed the length of the list.
\<close>

theorem new_policy_policy_count:
  assumes "map_of (risk_modules self) nm = Some rm"
  shows "policy_count (fst (new_policy self now nm payout_v premium_v lp ex)) = policy_count self + 1
       \<and> (case snd (new_policy self now nm payout_v premium_v lp ex) of
             Inl e \<Rightarrow> policies (fst (new_policy self now nm payout_v premium_v lp ex)) = policies self
           | Inr pol \<Rightarrow>
               policy_id pol = policy_count self + 1
               \<and> policies (fst (new_policy self now nm payout_v premium_v lp ex))
                   = policies self @ [pol])"
proof -
  define pol0 where "pol0 = Policy_init (policy_count self + 1) rm payout_v premium_v lp now ex"
  define sc where "sc = ocean_scan pol0 now (map snd (etokens self)) (0, [])"
  show ?thesis
  proof (cases "interest_rate pol0")
    case (Inl e)
    from new_policy_rate_error [OF assms Inl [unfolded pol0_def]] show ?thesis by simp
  next
    case (Inr r)
    show ?thesis
    proof (cases "0 < r")
      case False
      from new_policy_InvalidPolicy [OF assms Inr [unfolded pol0_def] False] show ?thesis by simp
    next
      case True
      show ?thesis
      proof (cases "policy_mcr pol0 \<le> fst sc")
        case False
        then have "fst (ocean_scan pol0 now (map snd (etokens self)) (0, [])) < policy_mcr pol0"
          by (simp add: sc_def)
        from new_policy_short [OF assms pol0_def Inr True this] show ?thesis by simp
      next
        case cap: True
        obtain etks pol1 rest res where
          loop: "lock_loop now (fst sc) (length (snd sc)) 0 (snd sc)
                   (etokens self, pol0, policy_mcr pol0) = ((etks, pol1, rest), res)"
          by (metis prod.exhaust)
        note np = new_policy_locking [OF assms pol0_def Inr True sc_def cap loop]
        show ?thesis
        proof (cases res)
          case (Inl e)
          with np show ?thesis by simp
        next
          case (Inr u)
          have "policy_id pol1 = policy_id pol0"
            using lock_loop_funds [OF loop [unfolded Inr]] by simp
          then have "policy_id pol1 = policy_count self + 1"
            by (simp add: pol0_def Policy_init_def)
          with np Inr show ?thesis by simp
        qed
      qed
    qed
  qed
qed

text \<open>
  A call that fails the capital check: the counter is 1 and no policy has been issued.
\<close>

theorem new_policy_policy_count_witness:
  "map_of (risk_modules ex_small_protocol) ''R'' = Some ex_rm
   \<and> snd (new_policy ex_small_protocol 0 ''R'' (wad_from_value 700) (wad_from_value 100)
            ex_loss_prob (ex_days 30)) = Inl InsufficientCapital
   \<and> policy_count (fst (new_policy ex_small_protocol 0 ''R'' (wad_from_value 700)
                           (wad_from_value 100) ex_loss_prob (ex_days 30)))
       = policy_count ex_small_protocol + 1
   \<and> policies (fst (new_policy ex_small_protocol 0 ''R'' (wad_from_value 700)
                       (wad_from_value 100) ex_loss_prob (ex_days 30))) = []"
proof -
  have a: "map_of (risk_modules ex_small_protocol) ''R'' = Some ex_rm" by code_simp
  have h: "snd (new_policy ex_small_protocol 0 ''R'' (wad_from_value 700) (wad_from_value 100)
                  ex_loss_prob (ex_days 30)) = Inl InsufficientCapital"
    by code_simp
  have e: "policies ex_small_protocol = []" by code_simp
  from new_policy_policy_count [OF a, of 0 "wad_from_value 700" "wad_from_value 100"
      ex_loss_prob "ex_days 30"] a h e
  show ?thesis by simp
qed

text \<open>
  C9 as stated, for every call, fails for a call that names no registered risk
  module: the lookup raises \<open>KeyError\<close> before the counter is touched.
\<close>

theorem new_policy_policy_count_counterexample:
  "snd (new_policy ex_empty_protocol 0 ''X'' (wad_from_value 1000) (wad_from_value 100)
          ex_loss_prob (ex_days 30)) = Inl KeyError
   \<and> policy_count (fst (new_policy ex_empty_protocol 0 ''X'' (wad_from_value 1000)
                           (wad_from_value 100) ex_loss_prob (ex_days 30)))
       = policy_count ex_empty_protocol"
  by code_simp

end
